theory Spec2Isabelle
  imports Complex_Main
begin

section \<open>Values, actions and their descriptions\<close>

text \<open>
  The agent is written in TypeScript on top of the mineflayer game client. The types of
  TypeScript are erased when it runs, and \<^verbatim>\<open>AiBot.addAction\<close> hands the planner's
  arguments (typed \<^verbatim>\<open>any\<close>) to the constructors of the actions unchecked, so the fields
  of an action hold plain JavaScript values.
\<close>

datatype jsval = JUndefined | JNum real | JStr string

text \<open>An object literal with its properties in order; reading a missing property gives \<^verbatim>\<open>undefined\<close>.\<close>

type_synonym jsobj = "(string \<times> jsval) list"

definition get_prop :: "jsobj \<Rightarrow> string \<Rightarrow> jsval" where
  "get_prop obj k = (case map_of obj k of None \<Rightarrow> JUndefined | Some v \<Rightarrow> v)"

text \<open>The four classes that implement the interface \<^verbatim>\<open>Action\<close> (act, cancel, toJSON).\<close>

datatype action =
    MoveToPositionAction jsval jsval jsval
  | EatAction jsval
  | FollowAndAttackAction jsval
  | DigBlockAction jsval jsval jsval

text \<open>What \<^verbatim>\<open>toJSON\<close> returns: \<^verbatim>\<open>{ action: <name>, args: {...} }\<close>.\<close>

record description =
  action_name :: string
  args :: jsobj

fun toJSON :: "action \<Rightarrow> description" where
  "toJSON (MoveToPositionAction x y z) =
     \<lparr>action_name = ''move_to_position'', args = [(''x'', x), (''y'', y), (''z'', z)]\<rparr>"
| "toJSON (EatAction itemName) =
     \<lparr>action_name = ''eat'', args = [(''itemName'', itemName)]\<rparr>"
| "toJSON (FollowAndAttackAction entityId) =
     \<lparr>action_name = ''follow_and_attack'', args = [(''entityId'', entityId)]\<rparr>"
| "toJSON (DigBlockAction x y z) =
     \<lparr>action_name = ''dig_block'', args = [(''x'', x), (''y'', y), (''z'', z)]\<rparr>"

section \<open>The world the actions talk to\<close>

text \<open>
  Errors are values. The three errors the actions construct themselves keep the data of
  their message; \<open>TypeError\<close> is what JavaScript throws when a property of
  \<^verbatim>\<open>undefined\<close> is read; \<open>External\<close> is any error raised by the game client or by the
  planner.
\<close>

datatype error =
    MoveTimeout                 \<comment> \<open>\<^verbatim>\<open>new Error("Move timeout")\<close>\<close>
  | ItemNotFound jsval          \<comment> \<open>\<^verbatim>\<open>new Error(`Item ${itemName} not found in inventory`)\<close>\<close>
  | EntityNotFound jsval        \<comment> \<open>\<^verbatim>\<open>new Error(`Entity ${entityId} not found`)\<close>\<close>
  | TypeError                   \<comment> \<open>a property of \<^verbatim>\<open>undefined\<close> is read\<close>
  | External string

datatype item = Item (item_name: string)
datatype entity = Entity (entity_id: real)
datatype block = Block (block_name: string)

datatype goal =
    GoalNear jsval jsval jsval real
  | GoalFollow entity real

text \<open>The result of \<^verbatim>\<open>scan\<close>, taken as given (health and food, which the status line prints).\<close>

datatype percept = Percept real real

text \<open>
  The texts sent to the chat and to the console, one constructor for each template string
  of the source with the values it interpolates.
\<close>

datatype msg =
    Moving_to jsval jsval jsval                 \<comment> \<open>\<^verbatim>\<open>Moving to (x, y, z)\<close>\<close>
  | Eating jsval                                \<comment> \<open>\<^verbatim>\<open>Eating <itemName>\<close>\<close>
  | Bot_eating string jsval                     \<comment> \<open>\<^verbatim>\<open>[bot] <user> eating <itemName>\<close>\<close>
  | Cannot_eat string jsval                     \<comment> \<open>\<^verbatim>\<open>[bot] <user> cannot eat <itemName>: not in inventory\<close>\<close>
  | Following_and_attacking jsval               \<comment> \<open>\<^verbatim>\<open>Following and attacking entity <id>\<close>\<close>
  | Bot_following string jsval                  \<comment> \<open>\<^verbatim>\<open>[bot] <user> following and attacking entity <id>\<close>\<close>
  | Cannot_find_entity string jsval             \<comment> \<open>\<^verbatim>\<open>[bot] <user> cannot find entity <id> to follow and attack\<close>\<close>
  | Cannot_follow string jsval                  \<comment> \<open>\<^verbatim>\<open>[bot] <user> cannot follow and attack entity <id>: not found\<close>\<close>
  | Digging_block jsval jsval jsval             \<comment> \<open>\<^verbatim>\<open>Digging block at (x, y, z)\<close>\<close>
  | No_actions                                  \<comment> \<open>\<^verbatim>\<open>No actions to perform.\<close>\<close>
  | Starting_actions nat                        \<comment> \<open>\<^verbatim>\<open>Starting <n> actions.\<close>\<close>
  | Action_failed description error             \<comment> \<open>\<^verbatim>\<open>Action <JSON> failed: <message>\<close>\<close>
  | Bot_action_failed string description error  \<comment> \<open>\<^verbatim>\<open>[bot] <user> <JSON> failed: <message>\<close>\<close>
  | Failed_to_cancel string description error   \<comment> \<open>\<^verbatim>\<open>[bot] <user> failed to cancel action <JSON>: <message>\<close>\<close>
  | Status_summary percept                      \<comment> \<open>\<^verbatim>\<open>Status summary: ...\<close>\<close>
  | Current_actions string "description list"   \<comment> \<open>\<^verbatim>\<open>[bot] <user> current actions: <JSON>\<close>\<close>
  | Adding_action string string jsobj           \<comment> \<open>\<^verbatim>\<open>[bot] <user> adding action: <name> with args <JSON>\<close>\<close>
  | Adding_action_undefined string string       \<comment> \<open>\<^verbatim>\<open>[bot] <user> adding action: <name> with args undefined\<close>\<close>
  | Unknown_tool_call string string             \<comment> \<open>\<^verbatim>\<open>[bot] <user> unknown tool call: <name>\<close>\<close>
  | Loop_error error                            \<comment> \<open>\<^verbatim>\<open>[loop] error: <message>\<close>\<close>

text \<open>Every call the program makes outwards, in the order it makes them.\<close>

datatype call =
    Chat msg                          \<comment> \<open>\<^verbatim>\<open>bot.chat\<close>\<close>
  | ConsoleLog msg                    \<comment> \<open>\<^verbatim>\<open>console.log\<close>, \<^verbatim>\<open>console.error\<close>\<close>
  | SetGoal "goal option" bool        \<comment> \<open>\<^verbatim>\<open>bot.pathfinder.setGoal(goal, dynamic)\<close>\<close>
  | PathfinderStop                    \<comment> \<open>\<^verbatim>\<open>bot.pathfinder.stop()\<close>\<close>
  | OnceGoalReached                   \<comment> \<open>\<^verbatim>\<open>bot.once("goal_reached", resolve)\<close>\<close>
  | RejectAfter nat                   \<comment> \<open>\<^verbatim>\<open>setTimeout(reject, ms)\<close>\<close>
  | OncePathReset                     \<comment> \<open>\<^verbatim>\<open>bot.once("path_reset", resolve)\<close>\<close>
  | OnPhysicsTick                     \<comment> \<open>\<^verbatim>\<open>bot.on("physicsTick", attackTick)\<close>\<close>
  | RemovePhysicsTick                 \<comment> \<open>\<^verbatim>\<open>bot.removeListener("physicsTick", attackTick)\<close>\<close>
  | Equip item                        \<comment> \<open>\<^verbatim>\<open>bot.equip(item, "hand")\<close>\<close>
  | Consume                           \<comment> \<open>\<^verbatim>\<open>bot.consume()\<close>\<close>
  | Dig block                         \<comment> \<open>\<^verbatim>\<open>bot.dig(block)\<close>\<close>
  | StopDigging                       \<comment> \<open>\<^verbatim>\<open>bot.stopDigging()\<close>\<close>
  | GenerateContent percept "description list"   \<comment> \<open>\<^verbatim>\<open>model.generateContent\<close>\<close>
  | SetTimeoutAct nat                 \<comment> \<open>\<^verbatim>\<open>setTimeout(() => this.act(), ms)\<close>\<close>

text \<open>
  What the program reads of the bot and of its libraries, and the calls it has made so
  far: \<^verbatim>\<open>bot.username\<close>; the entities that \<^verbatim>\<open>bot.entities\<close> holds, each under its
  numeric identifier; \<^verbatim>\<open>bot.inventory.items()\<close>; \<^verbatim>\<open>bot.pathfinder.goal\<close>; the blocks
  that \<^verbatim>\<open>bot.blockAt\<close> finds; the names of \<^verbatim>\<open>mcData(bot.version).itemsByName\<close>.
  \<open>cancel_faults\<close> lists the calls into the game client that throw, with their error,
  when a \<^verbatim>\<open>cancel\<close> makes them.
\<close>

record world =
  username :: string
  entities :: "(int \<times> entity) list"
  inventory_items :: "item list"
  pathfinder_goal :: "goal option"
  blocks :: "((jsval \<times> jsval \<times> jsval) \<times> block) list"
  itemsByName :: "string list"
  cancel_faults :: "(call \<times> error) list"
  trace :: "call list"

definition emit :: "call list \<Rightarrow> world \<Rightarrow> world" where
  "emit cs w = w\<lparr>trace := trace w @ cs\<rparr>"

definition setGoal :: "goal option \<Rightarrow> bool \<Rightarrow> world \<Rightarrow> world" where
  "setGoal g dynamic w = (emit [SetGoal g dynamic] w)\<lparr>pathfinder_goal := g\<rparr>"

subsection \<open>Looking an entity up\<close>

text \<open>
  \<^verbatim>\<open>bot.entities[id]\<close> reads a property of a plain object. JavaScript turns the key into
  a string first: a string is its own key, and a whole number below \<open>10\<^sup>2\<^sup>1\<close> in
  size is written in decimal digits. The object holds the entities under the keys of
  their identifiers; what it does not hold itself it inherits from
  \<^verbatim>\<open>Object.prototype\<close>, whose properties are objects and functions, not entities.
  (An identifier of \<open>10\<^sup>2\<^sup>1\<close> or more is written with an exponent; it is found
  under its number, and no string of the model finds it.)
\<close>

function decimal :: "nat \<Rightarrow> string" where
  "decimal n =
     (if n < 10 then [''0123456789'' ! n]
      else decimal (n div 10) @ [''0123456789'' ! (n mod 10)])"
  by pat_completeness auto
termination
  by (relation "measure id") auto

declare decimal.simps [simp del]

definition ToString :: "int \<Rightarrow> string" where
  "ToString i = (if i < 0 then CHR ''-'' # decimal (nat (- i)) else decimal (nat i))"

definition Object_prototype :: "string list" where
  "Object_prototype =
     [''constructor'', ''hasOwnProperty'', ''isPrototypeOf'', ''propertyIsEnumerable'',
      ''toLocaleString'', ''toString'', ''valueOf'', ''__proto__'',
      ''__defineGetter__'', ''__defineSetter__'', ''__lookupGetter__'', ''__lookupSetter__'']"

datatype property =
    Undefined             \<comment> \<open>no such property: the value is \<^verbatim>\<open>undefined\<close>\<close>
  | Own entity            \<comment> \<open>an entity of the bot's world\<close>
  | Inherited             \<comment> \<open>a property of \<^verbatim>\<open>Object.prototype\<close>: truthy, with no \<^verbatim>\<open>position\<close>\<close>

fun bot_entities :: "world \<Rightarrow> jsval \<Rightarrow> property" where
  "bot_entities w (JNum n) =
     (if n = of_int \<lfloor>n\<rfloor> then
        (case map_of (entities w) \<lfloor>n\<rfloor> of Some e \<Rightarrow> Own e | None \<Rightarrow> Undefined)
      else Undefined)"
| "bot_entities w (JStr s) =
     (case find (\<lambda>(i, e). \<bar>i\<bar> < 10 ^ 21 \<and> ToString i = s) (entities w) of
        Some (i, e) \<Rightarrow> Own e
      | None \<Rightarrow> if s \<in> set Object_prototype then Inherited else Undefined)"
| "bot_entities w JUndefined = Undefined"

section \<open>The actions: act and cancel\<close>

text \<open>
  \<^verbatim>\<open>act\<close> and \<^verbatim>\<open>cancel\<close> are async functions. A call runs the body up to its first
  \<^verbatim>\<open>await\<close> of a promise that the game client settles (a goal reached or timed out, an
  item equipped or consumed, a block dug, a path reset) and is suspended there; when that
  promise settles, the rest of the body runs up to the next such \<^verbatim>\<open>await\<close>. The outcome
  of each of these promises is the environment's choice.
\<close>

datatype outcome = Resolved | Rejected error

datatype stage =
    AwaitGoalReached    \<comment> \<open>the promise resolved by \<^verbatim>\<open>goal_reached\<close> and rejected by the timeout\<close>
  | AwaitEquip          \<comment> \<open>\<^verbatim>\<open>await this.bot.equip(item, "hand")\<close>\<close>
  | AwaitConsume        \<comment> \<open>\<^verbatim>\<open>await this.bot.consume()\<close>\<close>
  | AwaitEntityGone     \<comment> \<open>the promise resolved by \<^verbatim>\<open>attackTick\<close> once the entity is not valid\<close>
  | AwaitDig            \<comment> \<open>\<^verbatim>\<open>await this.bot.dig(block)\<close>\<close>

definition MOVE_TIMEOUT :: nat where
  "MOVE_TIMEOUT = 30000"

text \<open>
  The body of \<^verbatim>\<open>act\<close> up to its first suspension: \<open>Inl e\<close> when it throws before,
  \<open>Inr st\<close> when it is suspended at \<open>st\<close>. No \<^verbatim>\<open>act\<close> returns before its first
  suspension. In the follow action, \<^verbatim>\<open>if (entity)\<close> takes any property found for an
  entity; \<^verbatim>\<open>new goals.GoalFollow(entity, ...)\<close> reads \<^verbatim>\<open>entity.position.x\<close> and throws
  a \<^verbatim>\<open>TypeError\<close> for an inherited property, which has no position.
\<close>

fun act_begin :: "action \<Rightarrow> world \<Rightarrow> world \<times> (error + stage)" where
  "act_begin (MoveToPositionAction x y z) w =
     (emit [OnceGoalReached, RejectAfter MOVE_TIMEOUT]
        (setGoal (Some (GoalNear x y z 1)) False (emit [Chat (Moving_to x y z)] w)),
      Inr AwaitGoalReached)"
| "act_begin (EatAction itemName) w =
     (let w1 = emit [Chat (Eating itemName)] w in
      case find (\<lambda>i. JStr (item_name i) = itemName) (inventory_items w1) of
        Some item \<Rightarrow>
          (emit [ConsoleLog (Bot_eating (username w1) itemName), Equip item] w1, Inr AwaitEquip)
      | None \<Rightarrow>
          (emit [ConsoleLog (Cannot_eat (username w1) itemName)] w1, Inl (ItemNotFound itemName)))"
| "act_begin (FollowAndAttackAction entityId) w =
     (let w1 = emit [Chat (Following_and_attacking entityId)] w in
      case bot_entities w1 entityId of
        Own entity \<Rightarrow>
          (emit [OnPhysicsTick]
             (setGoal (Some (GoalFollow entity 1)) True
                (emit [ConsoleLog (Bot_following (username w1) entityId)] w1)),
           Inr AwaitEntityGone)
      | Inherited \<Rightarrow>
          (emit [ConsoleLog (Bot_following (username w1) entityId)] w1, Inl TypeError)
      | Undefined \<Rightarrow>
          (emit [ConsoleLog (Cannot_find_entity (username w1) entityId)] w1,
           Inl (EntityNotFound entityId)))"
| "act_begin (DigBlockAction x y z) w =
     (emit [OnceGoalReached, RejectAfter MOVE_TIMEOUT]
        (setGoal (Some (GoalNear x y z 4)) False (emit [Chat (Digging_block x y z)] w)),
      Inr AwaitGoalReached)"

text \<open>
  The rest of \<^verbatim>\<open>act\<close> once the promise it waits for has settled: \<open>Inl out\<close> when
  \<^verbatim>\<open>act\<close> itself settles, \<open>Inr st\<close> when it is suspended again. No body catches a
  rejection, so a rejected promise rejects \<^verbatim>\<open>act\<close> (the promise of the follow action
  has no way to be rejected; the first equation covers it all the same). That promise is
  resolved by its tick listener, which first clears the goal and removes itself (the
  attacks that listener makes on earlier ticks are not recorded).
\<close>

text \<open>
  The last statement of \<^verbatim>\<open>DigBlockAction.act\<close>,
  \<^verbatim>\<open>mcData(this.bot.version).itemsByName.oak_planks.id\<close>: the value is dropped, and the
  statement throws where the table has no \<^verbatim>\<open>oak_planks\<close>.
\<close>

definition oak_planks_id :: "world \<Rightarrow> outcome" where
  "oak_planks_id w =
     (if ''oak_planks'' \<in> set (itemsByName w) then Resolved else Rejected TypeError)"

fun act_resume :: "action \<Rightarrow> stage \<Rightarrow> outcome \<Rightarrow> world \<Rightarrow> world \<times> (outcome + stage)" where
  "act_resume a st (Rejected e) w = (w, Inl (Rejected e))"
| "act_resume (MoveToPositionAction x y z) AwaitGoalReached Resolved w = (w, Inl Resolved)"
| "act_resume (EatAction itemName) AwaitEquip Resolved w = (emit [Consume] w, Inr AwaitConsume)"
| "act_resume (EatAction itemName) AwaitConsume Resolved w = (w, Inl Resolved)"
| "act_resume (FollowAndAttackAction entityId) AwaitEntityGone Resolved w =
     (emit [RemovePhysicsTick] (setGoal None False w), Inl Resolved)"
| "act_resume (DigBlockAction x y z) AwaitGoalReached Resolved w =
     (case map_of (blocks w) (x, y, z) of
        Some b \<Rightarrow> (emit [Dig b] w, Inr AwaitDig)
      | None \<Rightarrow> (w, Inl (oak_planks_id w)))"
| "act_resume (DigBlockAction x y z) AwaitDig Resolved w = (w, Inl (oak_planks_id w))"
| "act_resume a st Resolved w = (w, Inl Resolved)"

text \<open>
  A call that \<^verbatim>\<open>cancel\<close> makes into the game client: it throws the error that the
  world has for it and changes nothing, or it is made and the body goes on.
\<close>

fun perform :: "call \<Rightarrow> world \<Rightarrow> world" where
  "perform (SetGoal g dynamic) w = setGoal g dynamic w"
| "perform c w = emit [c] w"

definition attempt ::
  "call \<Rightarrow> world \<Rightarrow> (world \<Rightarrow> world \<times> (error + bool)) \<Rightarrow> world \<times> (error + bool)" where
  "attempt c w rest =
     (case map_of (cancel_faults w) c of
        Some e \<Rightarrow> (w, Inl e)
      | None \<Rightarrow> rest (perform c w))"

text \<open>
  \<^verbatim>\<open>cancel\<close>: the world after the body has run up to its only \<^verbatim>\<open>await\<close>, and what has
  become of the call: \<open>Inl e\<close> when a call into the game client has thrown \<open>e\<close>,
  \<open>Inr True\<close> when it is suspended, waiting for \<^verbatim>\<open>path_reset\<close>, \<open>Inr False\<close> when it
  has returned. The promise it waits for is made with \<^verbatim>\<open>resolve\<close> alone, so that
  nothing can be thrown after the suspension.
\<close>

fun cancel_begin :: "action \<Rightarrow> world \<Rightarrow> world \<times> (error + bool)" where
  "cancel_begin (MoveToPositionAction x y z) w =
     (if pathfinder_goal w \<noteq> None then
        attempt (SetGoal None False) w (\<lambda>w1.
        attempt OncePathReset w1 (\<lambda>w2. (w2, Inr True)))
      else (w, Inr False))"
| "cancel_begin (EatAction itemName) w = (w, Inr False)"
| "cancel_begin (FollowAndAttackAction entityId) w =
     attempt RemovePhysicsTick w (\<lambda>w1.
       if pathfinder_goal w1 \<noteq> None then
         attempt PathfinderStop w1 (\<lambda>w2.
         attempt OncePathReset w2 (\<lambda>w3. (w3, Inr True)))
       else (w1, Inr False))"
| "cancel_begin (DigBlockAction x y z) w =
     attempt StopDigging w (\<lambda>w1.
       if pathfinder_goal w1 \<noteq> None then
         attempt (SetGoal None False) w1 (\<lambda>w2.
         attempt OncePathReset w2 (\<lambda>w3. (w3, Inr True)))
       else (w1, Inr False))"

section \<open>ActionChains\<close>

record executor =
  actions :: "action list"
  currentActionIndex :: nat

definition new_ActionChains :: executor where
  "new_ActionChains = \<lparr>actions = [], currentActionIndex = 0\<rparr>"

definition add :: "action \<Rightarrow> executor \<Rightarrow> executor" where
  "add action ex = ex\<lparr>actions := actions ex @ [action]\<rparr>"

text \<open>\<^verbatim>\<open>ActionChains.toJSON\<close>: the descriptions of the actions from the cursor on.\<close>

definition chains_toJSON :: "executor \<Rightarrow> description list" where
  "chains_toJSON ex = map toJSON (drop (currentActionIndex ex) (actions ex))"

text \<open>The two assignments that end \<^verbatim>\<open>reset\<close>.\<close>

definition reset_finish :: "executor \<Rightarrow> executor" where
  "reset_finish ex = ex\<lparr>actions := [], currentActionIndex := 0\<rparr>"

text \<open>
  \<^verbatim>\<open>reset\<close> up to its \<^verbatim>\<open>await action.cancel()\<close>: \<open>Some action\<close> when it is suspended
  there with that action's \<^verbatim>\<open>cancel\<close> waiting, \<open>None\<close> when it has run to its end.
  When \<^verbatim>\<open>cancel\<close> throws, the handler around it prints the error, and the two
  assignments follow as they do when \<^verbatim>\<open>cancel\<close> returns.
\<close>

definition reset_begin :: "executor \<Rightarrow> world \<Rightarrow> (executor \<times> world) \<times> action option" where
  "reset_begin ex w =
     (if currentActionIndex ex < length (actions ex) then
        let action = actions ex ! currentActionIndex ex;
            (w1, r) = cancel_begin action w
        in case r of
             Inr True \<Rightarrow> ((ex, w1), Some action)
           | Inr False \<Rightarrow> ((reset_finish ex, w1), None)
           | Inl e \<Rightarrow>
               ((reset_finish ex,
                 emit [ConsoleLog (Failed_to_cancel (username w1) (toJSON action) e)] w1),
                None)
      else ((reset_finish ex, w), None))"

text \<open>
  The rest of \<^verbatim>\<open>reset\<close> once the wait of \<^verbatim>\<open>cancel\<close> is over: the two assignments.
  The promise of that wait can only be fulfilled, so the handler has nothing to print.
\<close>

definition reset_resume :: "executor \<Rightarrow> world \<Rightarrow> executor \<times> world" where
  "reset_resume ex w = (reset_finish ex, w)"

text \<open>Where a call of \<^verbatim>\<open>start\<close>, \<^verbatim>\<open>reset\<close> or \<^verbatim>\<open>AiBot.act\<close> is suspended.\<close>

text \<open>
  A response of the planner: its candidates, each the list of its parts. A part is
  \<open>Some (name, args)\<close> when it carries a function call, and the \<^verbatim>\<open>args\<close> of a
  function call are an object or missing.
\<close>

type_synonym response = "(string \<times> jsobj option) option list list"

datatype task =
    StartAwaitAct action stage          \<comment> \<open>\<^verbatim>\<open>start\<close> at \<^verbatim>\<open>await action.act()\<close>\<close>
  | StartAwaitReset action              \<comment> \<open>\<^verbatim>\<open>start\<close> at \<^verbatim>\<open>await this.reset()\<close> in its handler\<close>
  | ResetAwaitCancel action             \<comment> \<open>\<^verbatim>\<open>reset\<close> at \<^verbatim>\<open>await action.cancel()\<close>\<close>
  | ActAwaitPlanner                     \<comment> \<open>\<^verbatim>\<open>AiBot.act\<close> at \<^verbatim>\<open>await this.model.generateContent\<close>\<close>
  | ActAwaitReset response action       \<comment> \<open>\<^verbatim>\<open>AiBot.act\<close> at \<^verbatim>\<open>await this.actions.reset()\<close>\<close>
  | Ended

text \<open>
  The handler of \<^verbatim>\<open>start\<close>: two messages that print \<^verbatim>\<open>JSON.stringify(action)\<close>, which
  is the action's \<^verbatim>\<open>toJSON\<close>, and the message of the error; then \<^verbatim>\<open>await this.reset()\<close>
  and \<^verbatim>\<open>break\<close>.
\<close>

definition failure_messages :: "action \<Rightarrow> error \<Rightarrow> world \<Rightarrow> world" where
  "failure_messages action e w =
     emit [ConsoleLog (Bot_action_failed (username w) (toJSON action) e),
           Chat (Action_failed (toJSON action) e)] w"

definition start_failed ::
  "action \<Rightarrow> error \<Rightarrow> executor \<Rightarrow> world \<Rightarrow> (executor \<times> world) \<times> task option" where
  "start_failed action e ex w =
     (case reset_begin ex (failure_messages action e w) of
        (c, r) \<Rightarrow> (c, map_option StartAwaitReset r))"

text \<open>
  The loop of \<^verbatim>\<open>start\<close> from its test up to \<^verbatim>\<open>await action.act()\<close>: \<open>None\<close> when the
  loop is over, else the action and what its \<^verbatim>\<open>act\<close> has done so far. This is where
  a call of \<^verbatim>\<open>start\<close> hands control back to its caller.
\<close>

definition loop_first :: "executor \<Rightarrow> world \<Rightarrow> world \<times> (action \<times> (error + stage)) option" where
  "loop_first ex w =
     (if currentActionIndex ex < length (actions ex) then
        let action = actions ex ! currentActionIndex ex;
            (w1, r) = act_begin action w
        in (w1, Some (action, r))
      else (w, None))"

text \<open>
  What follows: \<^verbatim>\<open>start\<close> has returned; or it is suspended in the action; or
  \<^verbatim>\<open>act\<close> has thrown already and the handler runs, as soon as the caller is done.
\<close>

definition loop_after ::
  "(action \<times> (error + stage)) option \<Rightarrow> executor \<Rightarrow> world \<Rightarrow> (executor \<times> world) \<times> task option" where
  "loop_after p ex w =
     (case p of
        None \<Rightarrow> ((ex, w), None)
      | Some (action, Inr st) \<Rightarrow> ((ex, w), Some (StartAwaitAct action st))
      | Some (action, Inl e) \<Rightarrow> start_failed action e ex w)"

text \<open>The loop with no caller in between, as it is when \<^verbatim>\<open>start\<close> goes on by itself.\<close>

definition start_loop :: "executor \<Rightarrow> world \<Rightarrow> (executor \<times> world) \<times> task option" where
  "start_loop ex w = (case loop_first ex w of (w1, p) \<Rightarrow> loop_after p ex w1)"

text \<open>The message that opens \<^verbatim>\<open>start\<close>.\<close>

definition start_message :: "executor \<Rightarrow> world \<Rightarrow> world" where
  "start_message ex w =
     emit [Chat (if length (actions ex) = 0 then No_actions
                 else Starting_actions (length (actions ex)))] w"

definition start :: "executor \<Rightarrow> world \<Rightarrow> (executor \<times> world) \<times> task option" where
  "start ex w = start_loop ex (start_message ex w)"

text \<open>
  \<^verbatim>\<open>start\<close> when the promise its action waits for settles: the action goes on; if its
  \<^verbatim>\<open>act\<close> returns, the cursor is incremented and the loop continues; if it throws, the
  handler runs.
\<close>

definition start_resume ::
  "action \<Rightarrow> stage \<Rightarrow> outcome \<Rightarrow> executor \<Rightarrow> world \<Rightarrow> (executor \<times> world) \<times> task option" where
  "start_resume action st out ex w =
     (let (w1, r) = act_resume action st out w
      in case r of
           Inr st' \<Rightarrow> ((ex, w1), Some (StartAwaitAct action st'))
         | Inl Resolved \<Rightarrow> start_loop (ex\<lparr>currentActionIndex := currentActionIndex ex + 1\<rparr>) w1
         | Inl (Rejected e) \<Rightarrow> start_failed action e ex w1)"

section \<open>The control loop: AiBot.act\<close>

definition LOOP_INTERVAL_MS :: nat where
  "LOOP_INTERVAL_MS = 10000"

text \<open>\<^verbatim>\<open>AiBot.addAction\<close>: a message, then the \<^verbatim>\<open>switch\<close> on the name of the tool.\<close>

definition addAction :: "string \<Rightarrow> jsobj \<Rightarrow> executor \<times> world \<Rightarrow> executor \<times> world" where
  "addAction name a c =
     (let ex = fst c;
          w = emit [ConsoleLog (Adding_action (username (snd c)) name a)] (snd c)
      in if name = ''move_to_position'' then
           (add (MoveToPositionAction (get_prop a ''x'') (get_prop a ''y'') (get_prop a ''z'')) ex, w)
         else if name = ''eat'' then
           (add (EatAction (get_prop a ''itemName'')) ex, w)
         else if name = ''follow_and_attack'' then
           (add (FollowAndAttackAction (get_prop a ''entityId'')) ex, w)
         else (ex, emit [ConsoleLog (Unknown_tool_call (username w) name)] w))"

text \<open>
  \<^verbatim>\<open>AiBot.addAction\<close> when the function call has no \<^verbatim>\<open>args\<close>: the message prints
  \<^verbatim>\<open>undefined\<close>, and each of the three cases of the \<^verbatim>\<open>switch\<close> throws a \<^verbatim>\<open>TypeError\<close>
  at its first read of \<^verbatim>\<open>args\<close>; the default case reads nothing.
\<close>

definition addAction_undefined ::
  "string \<Rightarrow> executor \<times> world \<Rightarrow> (executor \<times> world) \<times> error option" where
  "addAction_undefined name c =
     (let ex = fst c;
          w = emit [ConsoleLog (Adding_action_undefined (username (snd c)) name)] (snd c)
      in if name = ''move_to_position'' then ((ex, w), Some TypeError)
         else if name = ''eat'' then ((ex, w), Some TypeError)
         else if name = ''follow_and_attack'' then ((ex, w), Some TypeError)
         else ((ex, emit [ConsoleLog (Unknown_tool_call (username w) name)] w), None))"

text \<open>
  The body of the two nested loops of \<^verbatim>\<open>AiBot.act\<close>, for one part: a part without a
  function call, or with an empty name, is skipped. \<open>Some e\<close> is the error thrown.
\<close>

definition addPart ::
  "(string \<times> jsobj option) option \<Rightarrow> executor \<times> world \<Rightarrow> (executor \<times> world) \<times> error option" where
  "addPart part c =
     (case part of
        Some (name, Some a) \<Rightarrow> if name \<noteq> [] then (addAction name a c, None) else (c, None)
      | Some (name, None) \<Rightarrow> if name \<noteq> [] then addAction_undefined name c else (c, None)
      | None \<Rightarrow> (c, None))"

text \<open>The loops over the parts, in order, up to the first part that throws.\<close>

fun addParts ::
  "(string \<times> jsobj option) option list \<Rightarrow> executor \<times> world \<Rightarrow> (executor \<times> world) \<times> error option" where
  "addParts [] c = (c, None)"
| "addParts (part # parts) c =
     (case addPart part c of
        (c1, Some e) \<Rightarrow> (c1, Some e)
      | (c1, None) \<Rightarrow> addParts parts c1)"

text \<open>The parts at which \<^verbatim>\<open>addAction\<close> throws: a known tool is called without \<^verbatim>\<open>args\<close>.\<close>

definition throws_on :: "(string \<times> jsobj option) option \<Rightarrow> bool" where
  "throws_on part =
     (case part of
        Some (name, None) \<Rightarrow> name \<in> {''move_to_position'', ''eat'', ''follow_and_attack''}
      | Some (name, Some a) \<Rightarrow> False
      | None \<Rightarrow> False)"

text \<open>\<^verbatim>\<open>AiBot.act\<close> up to \<^verbatim>\<open>await this.model.generateContent(...)\<close>.\<close>

definition AiBot_act_begin :: "percept \<Rightarrow> executor \<Rightarrow> world \<Rightarrow> (executor \<times> world) \<times> task option" where
  "AiBot_act_begin p ex w =
     ((ex, emit [Chat (Status_summary p),
                 ConsoleLog (Current_actions (username w) (chains_toJSON ex)),
                 GenerateContent p (chains_toJSON ex)] w),
      Some ActAwaitPlanner)"

text \<open>
  \<^verbatim>\<open>AiBot.act\<close> after \<^verbatim>\<open>await this.actions.reset()\<close>. The actions are added; if that
  throws, \<^verbatim>\<open>act\<close> ends there with the error (\<open>Inl e\<close>). Else \<^verbatim>\<open>this.actions.start()\<close>
  is called and not awaited: it runs up to its first \<^verbatim>\<open>await\<close>, then \<^verbatim>\<open>act\<close> schedules
  its next call and returns, and only then does \<^verbatim>\<open>start\<close> go on, if it has not to
  wait for the world. \<open>Inr t\<close> is the call of \<^verbatim>\<open>start\<close>, when it is suspended.
\<close>

definition AiBot_act_finish ::
  "response \<Rightarrow> executor \<Rightarrow> world \<Rightarrow> (executor \<times> world) \<times> (error + task option)" where
  "AiBot_act_finish resp ex w =
     (case addParts (concat resp) (ex, w) of
        (c, Some e) \<Rightarrow> (c, Inl e)
      | ((ex1, w1), None) \<Rightarrow>
          (case loop_first ex1 (start_message ex1 w1) of
             (w2, p) \<Rightarrow>
               (case loop_after p ex1 (emit [SetTimeoutAct LOOP_INTERVAL_MS] w2) of
                  (c, t) \<Rightarrow> (c, Inr t))))"

section \<open>The program as a machine driven by calls and settled promises\<close>

text \<open>
  JavaScript runs one piece of code at a time: a suspended call goes on only when the
  promise it waits for settles, and then runs without interruption to its next
  suspension. The state holds the executor, the world and every call that has been
  suspended, in the order of their creation; \<open>Ended\<close> marks a call that has returned.
  \<open>unhandled\<close> collects the rejections of \<^verbatim>\<open>AiBot.act\<close>, which nothing handles.

  An \<^verbatim>\<open>await\<close> of a promise that is settled already (of a call that has returned or
  thrown without being suspended) goes on before anything else happens in the world, as
  soon as the code that runs has returned. The machine lets it go on at once, after the
  rest of the caller where the caller does not await the call (\<^verbatim>\<open>AiBot.act\<close> after
  \<^verbatim>\<open>start\<close>). The states it passes through are therefore the states between two
  events.

  The promise that a \<^verbatim>\<open>cancel\<close> waits for has no way to be rejected: when the event
  \<open>Settle\<close> reaches a call that waits in \<^verbatim>\<open>reset\<close>, the wait is over, and the outcome
  that the event carries is not looked at.
\<close>

record state =
  chains :: executor
  env :: world
  tasks :: "task list"
  unhandled :: "error list"

definition init :: "world \<Rightarrow> state" where
  "init w = \<lparr>chains = new_ActionChains, env = w, tasks = [], unhandled = []\<rparr>"

text \<open>A new call: its effects, and one more task when it is suspended.\<close>

definition spawn :: "(executor \<times> world) \<times> task option \<Rightarrow> state \<Rightarrow> state" where
  "spawn r s =
     s\<lparr>chains := fst (fst r), env := snd (fst r),
       tasks := tasks s @ (case snd r of None \<Rightarrow> [] | Some t \<Rightarrow> [t])\<rparr>"

text \<open>Task \<open>i\<close> has gone on: its effects, and where it is suspended now.\<close>

definition proceed :: "nat \<Rightarrow> (executor \<times> world) \<times> task option \<Rightarrow> state \<Rightarrow> state" where
  "proceed i r s =
     s\<lparr>chains := fst (fst r), env := snd (fst r),
       tasks := (tasks s)[i := (case snd r of None \<Rightarrow> Ended | Some t \<Rightarrow> t)]\<rparr>"

datatype event =
    Add action                  \<comment> \<open>\<^verbatim>\<open>actions.add(a)\<close>\<close>
  | Start                       \<comment> \<open>\<^verbatim>\<open>actions.start()\<close>, not awaited\<close>
  | Reset                       \<comment> \<open>\<^verbatim>\<open>actions.reset()\<close>\<close>
  | Act percept                 \<comment> \<open>\<^verbatim>\<open>this.act()\<close>: at spawn, and when its timer fires\<close>
  | Settle nat outcome          \<comment> \<open>the promise that task \<open>i\<close> waits for settles\<close>
  | PlannerReply nat response   \<comment> \<open>\<^verbatim>\<open>generateContent\<close> of task \<open>i\<close> resolves\<close>
  | PlannerFail nat error       \<comment> \<open>\<^verbatim>\<open>generateContent\<close> of task \<open>i\<close> rejects\<close>

text \<open>
  The call of \<^verbatim>\<open>AiBot.act\<close> that is task \<open>i\<close> is over: with an error that nothing
  handles, or with the call of \<^verbatim>\<open>start\<close> it has made as one more task, when that is
  suspended.
\<close>

definition act_over :: "nat \<Rightarrow> (executor \<times> world) \<times> (error + task option) \<Rightarrow> state \<Rightarrow> state" where
  "act_over i r s =
     (case snd r of
        Inl e \<Rightarrow>
          s\<lparr>chains := fst (fst r), env := snd (fst r),
            tasks := (tasks s)[i := Ended], unhandled := unhandled s @ [e]\<rparr>
      | Inr t \<Rightarrow> spawn (fst r, t) (s\<lparr>tasks := (tasks s)[i := Ended]\<rparr>))"

definition settle :: "nat \<Rightarrow> outcome \<Rightarrow> state \<Rightarrow> state" where
  "settle i out s =
     (if i < length (tasks s) then
        case tasks s ! i of
          StartAwaitAct a st \<Rightarrow> proceed i (start_resume a st out (chains s) (env s)) s
        | StartAwaitReset c \<Rightarrow> proceed i (reset_resume (chains s) (env s), None) s
        | ResetAwaitCancel c \<Rightarrow> proceed i (reset_resume (chains s) (env s), None) s
        | ActAwaitReset resp c \<Rightarrow>
            (case reset_resume (chains s) (env s) of
               (ex, w) \<Rightarrow> act_over i (AiBot_act_finish resp ex w) s)
        | ActAwaitPlanner \<Rightarrow> s
        | Ended \<Rightarrow> s
      else s)"

definition planner_reply :: "nat \<Rightarrow> response \<Rightarrow> state \<Rightarrow> state" where
  "planner_reply i resp s =
     (if i < length (tasks s) \<and> tasks s ! i = ActAwaitPlanner then
        case reset_begin (chains s) (env s) of
          (c, Some a) \<Rightarrow> proceed i (c, Some (ActAwaitReset resp a)) s
        | ((ex, w), None) \<Rightarrow> act_over i (AiBot_act_finish resp ex w) s
      else s)"

text \<open>
  \<^verbatim>\<open>AiBot.act\<close> has no handler around \<^verbatim>\<open>generateContent\<close>: when it rejects,
  \<^verbatim>\<open>act\<close> rejects at that line and the rest of its body does not run.
\<close>

definition planner_fail :: "nat \<Rightarrow> error \<Rightarrow> state \<Rightarrow> state" where
  "planner_fail i e s =
     (if i < length (tasks s) \<and> tasks s ! i = ActAwaitPlanner then
        s\<lparr>tasks := (tasks s)[i := Ended], unhandled := unhandled s @ [e]\<rparr>
      else s)"

fun step :: "event \<Rightarrow> state \<Rightarrow> state" where
  "step (Add a) s = s\<lparr>chains := add a (chains s)\<rparr>"
| "step Start s = spawn (start (chains s) (env s)) s"
| "step Reset s =
     (case reset_begin (chains s) (env s) of (c, r) \<Rightarrow> spawn (c, map_option ResetAwaitCancel r) s)"
| "step (Act p) s = spawn (AiBot_act_begin p (chains s) (env s)) s"
| "step (Settle i out) s = settle i out s"
| "step (PlannerReply i resp) s = planner_reply i resp s"
| "step (PlannerFail i e) s = planner_fail i e s"

definition run :: "event list \<Rightarrow> state \<Rightarrow> state" where
  "run es s = fold step es s"

text \<open>The actions whose \<^verbatim>\<open>act\<close> has been called by a \<^verbatim>\<open>start\<close> and has not settled.\<close>

fun in_flight :: "task \<Rightarrow> action list" where
  "in_flight (StartAwaitAct a st) = [a]"
| "in_flight t = []"

definition running :: "state \<Rightarrow> action list" where
  "running s = concat (map in_flight (tasks s))"

text \<open>The delays of the calls of \<^verbatim>\<open>act\<close> scheduled so far.\<close>

fun timer_of :: "call \<Rightarrow> nat list" where
  "timer_of (SetTimeoutAct ms) = [ms]"
| "timer_of c = []"

definition scheduled :: "world \<Rightarrow> nat list" where
  "scheduled w = concat (map timer_of (trace w))"

section \<open>The earlier variants of the agent\<close>

text \<open>
  \<^verbatim>\<open>AiBot.followAndAttack\<close> of \<^verbatim>\<open>bot.ts\<close>, the variant without action classes. The
  function has no \<^verbatim>\<open>await\<close>: it runs to its end when it is called, and the result is
  the outcome of the promise it returns.
\<close>

definition FOLLOW_RANGE :: real where
  "FOLLOW_RANGE = 12 / 10"

definition AiBot_followAndAttack :: "jsval \<Rightarrow> world \<Rightarrow> world \<times> outcome" where
  "AiBot_followAndAttack entityId w =
     (let w1 = emit [Chat (Following_and_attacking entityId)] w in
      case bot_entities w1 entityId of
        Own entity \<Rightarrow>
          (emit [OnPhysicsTick]
             (setGoal (Some (GoalFollow entity FOLLOW_RANGE)) True
                (emit [ConsoleLog (Bot_following (username w1) entityId)] w1)),
           Resolved)
      | Inherited \<Rightarrow>
          (emit [ConsoleLog (Bot_following (username w1) entityId)] w1, Rejected TypeError)
      | Undefined \<Rightarrow>
          (emit [ConsoleLog (Cannot_follow (username w1) entityId)] w1, Resolved))"

text \<open>
  The control loop of the variant with \<^verbatim>\<open>VertexPlanner\<close>: a \<^verbatim>\<open>while\<close> loop whose body
  is a \<^verbatim>\<open>try\<close> block around \<^verbatim>\<open>planner.decide\<close> and the \<^verbatim>\<open>executeTool\<close> calls, with a
  handler that prints the error. An iteration is given by what \<^verbatim>\<open>decide\<close> does: it throws
  (\<open>Inl e\<close>) or returns tool calls, each with the outcome of its \<^verbatim>\<open>executeTool\<close>; what the
  tools do to the world is left out, and so is the chat command that clears
  \<^verbatim>\<open>controlLoopActive\<close>. The list holds the iterations that the environment has answered.
\<close>

fun executeTools :: "outcome list \<Rightarrow> outcome" where
  "executeTools [] = Resolved"
| "executeTools (Resolved # outs) = executeTools outs"
| "executeTools (Rejected e # outs) = Rejected e"

definition loop_body :: "error + outcome list \<Rightarrow> world \<Rightarrow> world" where
  "loop_body d w =
     (case d of
        Inl e \<Rightarrow> emit [ConsoleLog (Loop_error e)] w
      | Inr outs \<Rightarrow>
          (case executeTools outs of
             Resolved \<Rightarrow> w
           | Rejected e \<Rightarrow> emit [ConsoleLog (Loop_error e)] w))"

fun loop :: "(error + outcome list) list \<Rightarrow> bool \<Rightarrow> bool \<Rightarrow> world \<Rightarrow> world" where
  "loop [] controlLoopActive stopRequested w = w"
| "loop (d # ds) controlLoopActive stopRequested w =
     (if controlLoopActive \<and> \<not> stopRequested
      then loop ds controlLoopActive stopRequested (loop_body d w)
      else w)"

section \<open>Concrete inputs\<close>

definition world0 :: world where
  "world0 = \<lparr>username = ''bot'', entities = [], inventory_items = [],
             pathfinder_goal = None, blocks = [], itemsByName = [''oak_planks''],
             cancel_faults = [], trace = []\<rparr>"

definition xyz :: "real \<Rightarrow> real \<Rightarrow> real \<Rightarrow> jsobj" where
  "xyz x y z = [(''x'', JNum x), (''y'', JNum y), (''z'', JNum z)]"

definition move :: "real \<Rightarrow> action" where
  "move n = MoveToPositionAction (JNum n) (JNum 64) (JNum n)"

definition move_call :: "real \<Rightarrow> (string \<times> jsobj option) option" where
  "move_call n = Some (''move_to_position'', Some (xyz n 64 n))"

text \<open>
  Two cycles of \<^verbatim>\<open>AiBot.act\<close>. The first plans one move, which is still on its way when
  the second cycle plans three; the bot then reaches the goal of the first of the three,
  and \<^verbatim>\<open>goal_reached\<close> resolves the promise of the old move and that of the new one.
  Task 0 and task 2 are the two calls of \<^verbatim>\<open>act\<close>, task 1 and task 3 the two calls of
  \<^verbatim>\<open>start\<close>.
\<close>

definition two_cycles :: "event list" where
  "two_cycles =
     [Act (Percept 20 20), PlannerReply 0 [[move_call 1]],
      Act (Percept 20 20), PlannerReply 2 [[move_call 2, move_call 3, move_call 4]],
      Settle 2 Resolved,
      Settle 1 Resolved, Settle 3 Resolved]"

text \<open>A bot that holds bread, and the state in which it is eating it: the item is equipped
  and \<^verbatim>\<open>bot.consume()\<close> is on its way.\<close>

definition bread :: action where
  "bread = EatAction (JStr ''bread'')"

definition bread_world :: world where
  "bread_world = world0\<lparr>inventory_items := [Item ''bread'']\<rparr>"

definition eating :: state where
  "eating = run [Add bread, Start, Settle 0 Resolved] (init bread_world)"

text \<open>A run of three moves, and the state in which the first of them is on its way.\<close>

definition three_moves :: "event list" where
  "three_moves = [Add (move 1), Add (move 2), Add (move 3), Start]"



text \<open>
  A bot whose pathfinder throws when its goal is cleared, and the state in which the
  first of three moves is on its way there.
\<close>

definition stubborn_world :: world where
  "stubborn_world = world0\<lparr>cancel_faults := [(SetGoal None False, External ''pathfinder'')]\<rparr>"

definition stuck :: state where
  "stuck = run three_moves (init stubborn_world)"

text \<open>
  The control loop while it waits for the planner: in its first cycle, and in its second
  cycle with the move of the first cycle still on its way.
\<close>

definition planning :: state where
  "planning = run [Act (Percept 20 20)] (init world0)"

definition replanning :: state where
  "replanning =
     run [Act (Percept 20 20), PlannerReply 0 [[move_call 1]], Act (Percept 20 20)] (init world0)"

text \<open>A bot that sees entity 7.\<close>

definition world7 :: world where
  "world7 = world0\<lparr>entities := [(7, Entity 7)]\<rparr>"

section \<open>What an aborted run looks like\<close>


section \<open>Evaluation and basic facts\<close>

lemmas machine_defs =
  init_def new_ActionChains_def add_def spawn_def proceed_def act_over_def Let_def
  start_def start_message_def start_loop_def loop_first_def loop_after_def
  start_failed_def failure_messages_def start_resume_def
  reset_begin_def reset_resume_def reset_finish_def attempt_def
  settle_def planner_reply_def planner_fail_def emit_def setGoal_def
  MOVE_TIMEOUT_def LOOP_INTERVAL_MS_def
  AiBot_act_begin_def AiBot_act_finish_def addPart_def addAction_def addAction_undefined_def
  get_prop_def chains_toJSON_def

lemmas input_defs =
  world0_def xyz_def move_def move_call_def bread_def bread_world_def stubborn_world_def
  world7_def

lemma reset_finish_idle: "reset_finish ex = new_ActionChains"
  by (simp add: reset_finish_def new_ActionChains_def)

lemma chains_toJSON_idle: "chains_toJSON new_ActionChains = []"
  by (simp add: chains_toJSON_def new_ActionChains_def)


lemma reset_begin_cases:
  obtains (finished) w1 where "reset_begin ex w = ((new_ActionChains, w1), None)"
  | (waiting) w1 where "currentActionIndex ex < length (actions ex)"
      "cancel_begin (actions ex ! currentActionIndex ex) w = (w1, Inr True)"
      "reset_begin ex w = ((ex, w1), Some (actions ex ! currentActionIndex ex))"
proof (cases "currentActionIndex ex < length (actions ex)")
  case False
  then have "reset_begin ex w = ((new_ActionChains, w), None)"
    by (simp add: reset_begin_def reset_finish_idle)
  then show ?thesis by (rule finished)
next
  case True
  obtain w1 r where c: "cancel_begin (actions ex ! currentActionIndex ex) w = (w1, r)"
    by (cases "cancel_begin (actions ex ! currentActionIndex ex) w")
  show ?thesis
  proof (cases r)
    case (Inl e)
    with c True show ?thesis
      by (intro finished) (simp add: reset_begin_def reset_finish_idle)
  next
    case (Inr b)
    show ?thesis
    proof (cases b)
      case True
      with c Inr \<open>currentActionIndex ex < length (actions ex)\<close> show ?thesis
        by (intro waiting[of w1]) (simp_all add: reset_begin_def)
    next
      case False
      with c Inr \<open>currentActionIndex ex < length (actions ex)\<close> show ?thesis
        by (intro finished) (simp add: reset_begin_def reset_finish_idle)
    qed
  qed
qed

lemma reset_resume_idle: "fst (reset_resume ex w) = new_ActionChains"
  by (simp add: reset_resume_def reset_finish_idle)

text \<open>
  A call of \<^verbatim>\<open>reset\<close> in state \<open>s\<close> is task number \<open>length (tasks s)\<close> when it is
  suspended; when it has returned at once there is no such task, and the event that
  settles it changes nothing. Either way the executor is empty once \<^verbatim>\<open>reset\<close> is over.
\<close>

lemma reset_awaited_idle:
  "chains (settle (length (tasks s)) out (step Reset s)) = new_ActionChains"
proof (cases rule: reset_begin_cases[of "chains s" "env s"])
  case (finished w1)
  then show ?thesis by (simp add: spawn_def settle_def)
next
  case (waiting w1)
  then show ?thesis by (simp add: spawn_def settle_def proceed_def reset_resume_idle)
qed

lemma reset_on_idle: "chains s = new_ActionChains \<Longrightarrow> step Reset s = s"
  by (simp add: reset_begin_def new_ActionChains_def reset_finish_def spawn_def)

lemma eating_state:
  "eating = \<lparr>chains = \<lparr>actions = [bread], currentActionIndex = 0\<rparr>,
             env = bread_world\<lparr>trace := [Chat (Starting_actions 1), Chat (Eating (JStr ''bread'')),
                      ConsoleLog (Bot_eating ''bot'' (JStr ''bread'')), Equip (Item ''bread''),
                      Consume]\<rparr>,
             tasks = [StartAwaitAct bread AwaitConsume], unhandled = []\<rparr>"
  by (simp add: eating_def run_def machine_defs input_defs)



lemma stuck_state:
  "stuck = \<lparr>chains = \<lparr>actions = [move 1, move 2, move 3], currentActionIndex = 0\<rparr>,
            env = stubborn_world\<lparr>pathfinder_goal := Some (GoalNear (JNum 1) (JNum 64) (JNum 1) 1),
                     trace := [Chat (Starting_actions 3),
                       Chat (Moving_to (JNum 1) (JNum 64) (JNum 1)),
                       SetGoal (Some (GoalNear (JNum 1) (JNum 64) (JNum 1) 1)) False,
                       OnceGoalReached, RejectAfter 30000]\<rparr>,
            tasks = [StartAwaitAct (move 1) AwaitGoalReached], unhandled = []\<rparr>"
  by (simp add: stuck_def three_moves_def run_def machine_defs input_defs)

section \<open>The executor: sequencing\<close>

text \<open>
  Claim C1: in every run that \<^verbatim>\<open>ActionChains.start\<close> executes, at most one action is
  running at any instant, and the cursor advances only when the current action's
  \<^verbatim>\<open>act\<close> has succeeded.

  The program breaks this. \<^verbatim>\<open>AiBot.act\<close> does not await \<^verbatim>\<open>start\<close>, and \<^verbatim>\<open>reset\<close> empties
  the list without ending the call of \<^verbatim>\<open>start\<close> that is suspended in the cancelled
  action. After the two cycles of \<open>two_cycles\<close> the executor holds the three moves of
  the second plan. The old call of \<^verbatim>\<open>start\<close> wakes up first, increments the cursor of
  the new list and starts its second move; the new call then increments the cursor
  again and starts the third. Two moves of one list are in flight together, and the
  cursor is at 2 although only the first move has ended.
\<close>

theorem stale_start_runs_two_actions_at_once:
  "actions (chains (run two_cycles (init world0))) = [move 2, move 3, move 4] \<and>
   running (run two_cycles (init world0)) = [move 3, move 4] \<and>
   currentActionIndex (chains (run two_cycles (init world0))) = 2"
  by (simp add: run_def two_cycles_def machine_defs input_defs running_def)

section \<open>The executor: reset\<close>

text \<open>
  Claim C5: \<^verbatim>\<open>reset\<close> is idempotent. Once a first \<^verbatim>\<open>reset\<close> is over, whatever the state
  it was called in and however its wait for \<^verbatim>\<open>cancel\<close> ended, the executor is empty and
  \<^verbatim>\<open>toJSON\<close> returns the empty list; a second \<^verbatim>\<open>reset\<close> then returns at once and changes
  nothing at all, and \<^verbatim>\<open>toJSON\<close> is still empty. The same holds for a \<^verbatim>\<open>reset\<close> of an
  executor that is idle to begin with.
\<close>

theorem reset_idempotent:
  "chains (settle (length (tasks s)) out (step Reset s)) = new_ActionChains \<and>
   chains_toJSON (chains (settle (length (tasks s)) out (step Reset s))) = [] \<and>
   step Reset (settle (length (tasks s)) out (step Reset s)) =
     settle (length (tasks s)) out (step Reset s) \<and>
   chains_toJSON (chains (step Reset (settle (length (tasks s)) out (step Reset s)))) = [] \<and>
   step Reset (s\<lparr>chains := new_ActionChains\<rparr>) = s\<lparr>chains := new_ActionChains\<rparr> \<and>
   chains_toJSON (chains (step Reset (s\<lparr>chains := new_ActionChains\<rparr>))) = []"
proof -
  let ?s1 = "settle (length (tasks s)) out (step Reset s)"
  have 1: "chains ?s1 = new_ActionChains" by (rule reset_awaited_idle)
  have 2: "step Reset ?s1 = ?s1" using 1 by (rule reset_on_idle)
  have 3: "step Reset (s\<lparr>chains := new_ActionChains\<rparr>) = s\<lparr>chains := new_ActionChains\<rparr>"
    by (rule reset_on_idle) simp
  show ?thesis
    by (simp add: 1 2 3 chains_toJSON_idle del: step.simps)
qed

section \<open>The executor: submission\<close>

text \<open>
  Claim C3: submitting actions to an executor whose run is active is rejected.

  It is not: \<^verbatim>\<open>add\<close> has no test. While the first move is on its way, a fourth action is
  appended to the list behind the three it holds.
\<close>

theorem add_accepted_during_run:
  "actions (chains (run (three_moves @ [Add bread]) (init world0))) =
     [move 1, move 2, move 3, bread] \<and>
   running (run (three_moves @ [Add bread]) (init world0)) = [move 1]"
  by (simp add: run_def three_moves_def machine_defs input_defs running_def)

lemma actions_fold_add: "actions (fold add as ex) = actions ex @ as"
  by (induction as arbitrary: ex) (simp_all add: add_def)

lemma cursor_fold_add: "currentActionIndex (fold add as ex) = currentActionIndex ex"
  by (induction as arbitrary: ex) (simp_all add: add_def)

text \<open>
  Claim C3, as the code has it: \<^verbatim>\<open>add\<close> appends the action to the list, empty or not,
  and leaves the cursor where it is; it never rejects. The list starts empty with the
  cursor at zero because the caller resets first: adding actions one by one after a
  \<^verbatim>\<open>reset\<close> stores exactly these actions with the cursor at zero.
\<close>

theorem add_appends:
  "actions (add a ex) = actions ex @ [a] \<and>
   currentActionIndex (add a ex) = currentActionIndex ex \<and>
   fold add as (reset_finish ex) = \<lparr>actions = as, currentActionIndex = 0\<rparr>"
proof -
  have "actions (fold add as (reset_finish ex)) = as"
    by (simp add: actions_fold_add reset_finish_def)
  moreover have "currentActionIndex (fold add as (reset_finish ex)) = 0"
    by (simp add: cursor_fold_add reset_finish_def)
  ultimately have "fold add as (reset_finish ex) = \<lparr>actions = as, currentActionIndex = 0\<rparr>"
    by (cases "fold add as (reset_finish ex)") simp
  then show ?thesis by (simp add: add_def)
qed

section \<open>The control loop: failures of the planner\<close>

text \<open>
  Claim C4: when the call of the planner throws, the error is caught at the level of the
  loop and logged, and the loop reaches its next cycle.

  \<^verbatim>\<open>AiBot.act\<close> does not do this. Whatever the world, the percept and the error: when
  \<^verbatim>\<open>generateContent\<close> rejects in the first cycle, the call of \<^verbatim>\<open>act\<close> ends with the error
  unhandled, it has printed its status lines and nothing about the error, and no call
  of \<^verbatim>\<open>act\<close> is scheduled; nothing is left that could run.
\<close>

theorem planner_failure_ends_AiBot_act:
  "tasks (run [Act p, PlannerFail 0 e] (init w)) = [Ended] \<and>
   unhandled (run [Act p, PlannerFail 0 e] (init w)) = [e] \<and>
   scheduled (env (run [Act p, PlannerFail 0 e] (init w))) = scheduled w \<and>
   trace (env (run [Act p, PlannerFail 0 e] (init w))) =
     trace w @ [Chat (Status_summary p), ConsoleLog (Current_actions (username w) []),
                GenerateContent p []]"
  by (simp add: run_def machine_defs scheduled_def)

text \<open>
  The loop of the variant with \<^verbatim>\<open>VertexPlanner\<close> has the handler: an iteration in which
  \<^verbatim>\<open>decide\<close> throws prints the error, and the loop goes on with the next iteration.
\<close>

lemma loop_survives_planner_failure:
  "loop (Inl e # ds) True False w = loop ds True False (emit [ConsoleLog (Loop_error e)] w)"
  by (simp add: loop_body_def)

section \<open>Descriptions and the translation of tool calls\<close>

text \<open>
  Claim C8: the description of every action, given to \<^verbatim>\<open>AiBot.addAction\<close>, builds the
  same action again.

  Not for \<^verbatim>\<open>DigBlockAction\<close>: \<^verbatim>\<open>addAction\<close> does not know the name \<^verbatim>\<open>dig_block\<close>, prints
  that the tool call is unknown and adds nothing.
\<close>

theorem dig_block_not_rebuilt:
  "addAction (action_name (toJSON (DigBlockAction (JNum 1) (JNum 2) (JNum 3))))
     (args (toJSON (DigBlockAction (JNum 1) (JNum 2) (JNum 3)))) (new_ActionChains, world0) =
   (new_ActionChains,
    world0\<lparr>trace := [ConsoleLog (Adding_action ''bot'' ''dig_block'' (xyz 1 2 3)),
                     ConsoleLog (Unknown_tool_call ''bot'' ''dig_block'')]\<rparr>)"
  by (simp add: addAction_def Let_def emit_def world0_def xyz_def)

text \<open>
  Claim C8, as the code has it: for the three actions that \<^verbatim>\<open>addAction\<close> knows (move to
  a position, eat, follow and attack), the name and the arguments of the description
  add the very same action to the list, whatever its parameters; for a
  \<^verbatim>\<open>DigBlockAction\<close> the list is left as it was.
\<close>

theorem describe_then_addAction:
  "fst (addAction (action_name (toJSON (MoveToPositionAction x y z)))
          (args (toJSON (MoveToPositionAction x y z))) (ex, w)) =
     add (MoveToPositionAction x y z) ex \<and>
   fst (addAction (action_name (toJSON (EatAction itemName)))
          (args (toJSON (EatAction itemName))) (ex, w)) =
     add (EatAction itemName) ex \<and>
   fst (addAction (action_name (toJSON (FollowAndAttackAction entityId)))
          (args (toJSON (FollowAndAttackAction entityId))) (ex, w)) =
     add (FollowAndAttackAction entityId) ex \<and>
   fst (addAction (action_name (toJSON (DigBlockAction x y z)))
          (args (toJSON (DigBlockAction x y z))) (ex, w)) = ex"
  by (simp add: addAction_def get_prop_def Let_def)

section \<open>The executor: a failing action\<close>







section \<open>The executor: a cancellation that throws\<close>

text \<open>
  Claim C10: \<^verbatim>\<open>reset\<close> leaves the executor with an empty list and the cursor at zero even
  when \<^verbatim>\<open>cancel\<close> of the current action throws. Whatever the state, the executor is
  empty once \<^verbatim>\<open>reset\<close> is over. And when the cursor is on an action whose \<^verbatim>\<open>cancel\<close>
  throws \<open>e\<close>, which it can only do before it waits, \<^verbatim>\<open>reset\<close> returns at once: the
  state after is the state before with the executor empty and, in the world that
  \<^verbatim>\<open>cancel\<close> left, one line on the console that the cancellation of this action failed
  with \<open>e\<close>; no call is suspended in it.
\<close>

theorem reset_clears_when_cancel_throws:
  "chains (settle (length (tasks s)) out (step Reset s)) = new_ActionChains \<and>
   (currentActionIndex (chains s) < length (actions (chains s)) \<and>
    cancel_begin (actions (chains s) ! currentActionIndex (chains s)) (env s) = (w, Inl e)
    \<longrightarrow> step Reset s =
          s\<lparr>chains := new_ActionChains,
            env := emit [ConsoleLog (Failed_to_cancel (username w)
                           (toJSON (actions (chains s) ! currentActionIndex (chains s))) e)] w\<rparr>)"
proof (intro conjI impI)
  show "chains (settle (length (tasks s)) out (step Reset s)) = new_ActionChains"
    by (rule reset_awaited_idle)
next
  assume "currentActionIndex (chains s) < length (actions (chains s)) \<and>
    cancel_begin (actions (chains s) ! currentActionIndex (chains s)) (env s) = (w, Inl e)"
  then show "step Reset s =
          s\<lparr>chains := new_ActionChains,
            env := emit [ConsoleLog (Failed_to_cancel (username w)
                           (toJSON (actions (chains s) ! currentActionIndex (chains s))) e)] w\<rparr>"
    by (simp add: reset_begin_def spawn_def reset_finish_idle)
qed

theorem reset_clears_when_cancel_throws_witness:
  "currentActionIndex (chains stuck) < length (actions (chains stuck)) \<and>
   cancel_begin (actions (chains stuck) ! currentActionIndex (chains stuck)) (env stuck) =
     (env stuck, Inl (External ''pathfinder'')) \<and>
   chains (step Reset stuck) = new_ActionChains \<and>
   tasks (step Reset stuck) = tasks stuck \<and>
   trace (env (step Reset stuck)) =
     trace (env stuck) @
       [ConsoleLog (Failed_to_cancel ''bot'' (toJSON (move 1)) (External ''pathfinder''))]"
proof -
  have h: "currentActionIndex (chains stuck) < length (actions (chains stuck)) \<and>
   cancel_begin (actions (chains stuck) ! currentActionIndex (chains stuck)) (env stuck) =
     (env stuck, Inl (External ''pathfinder''))"
    by (simp add: stuck_state move_def attempt_def stubborn_world_def world0_def)
  from h reset_clears_when_cancel_throws[of stuck Resolved "env stuck" "External ''pathfinder''"]
  have "step Reset stuck =
          stuck\<lparr>chains := new_ActionChains,
            env := emit [ConsoleLog (Failed_to_cancel (username (env stuck))
                           (toJSON (actions (chains stuck) ! currentActionIndex (chains stuck)))
                           (External ''pathfinder''))] (env stuck)\<rparr>"
    by blast
  with h show ?thesis
    by (simp add: stuck_state emit_def stubborn_world_def world0_def del: step.simps)
qed

section \<open>Cancelling the eat action\<close>

text \<open>
  Claim C6: \<^verbatim>\<open>cancel\<close> of the eat action is a no-op. With the cursor on an eat action,
  \<^verbatim>\<open>reset\<close>, which calls that \<^verbatim>\<open>cancel\<close>, returns at once and changes nothing but the
  executor's list and cursor: the world has received no call and no message, no call is
  suspended in it, and the actions in flight are the same, so an eat action that waits
  for \<^verbatim>\<open>bot.consume()\<close> still does. \<^verbatim>\<open>cancel\<close> itself returns the world as it got it,
  and \<^verbatim>\<open>act\<close> ends as \<^verbatim>\<open>bot.consume()\<close> ends.
\<close>

theorem eat_cancel_is_noop:
  assumes "currentActionIndex (chains s) < length (actions (chains s))"
    and "actions (chains s) ! currentActionIndex (chains s) = EatAction itemName"
  shows "step Reset s = s\<lparr>chains := new_ActionChains\<rparr> \<and>
         running (step Reset s) = running s \<and>
         cancel_begin (EatAction itemName) w = (w, Inr False) \<and>
         act_resume (EatAction itemName) AwaitConsume out w = (w, Inl out)"
proof -
  from assms have "step Reset s = s\<lparr>chains := new_ActionChains\<rparr>"
    by (simp add: reset_begin_def spawn_def reset_finish_idle)
  then show ?thesis
    by (cases out) (simp_all add: running_def del: step.simps)
qed

theorem eat_cancel_is_noop_witness:
  "currentActionIndex (chains eating) < length (actions (chains eating)) \<and>
   actions (chains eating) ! currentActionIndex (chains eating) = EatAction (JStr ''bread'') \<and>
   env (step Reset eating) = env eating \<and>
   tasks (step Reset eating) = [StartAwaitAct bread AwaitConsume] \<and>
   running (step Reset eating) = [bread] \<and>
   chains_toJSON (chains (step Reset eating)) = []"
proof -
  have h1: "currentActionIndex (chains eating) < length (actions (chains eating))"
    by (simp add: eating_state)
  have h2: "actions (chains eating) ! currentActionIndex (chains eating) = EatAction (JStr ''bread'')"
    by (simp add: eating_state bread_def)
  from eat_cancel_is_noop[OF h1 h2, of "env eating" Resolved] h1 h2 show ?thesis
    by (simp add: eating_state running_def chains_toJSON_idle del: step.simps)
qed

section \<open>Following a target that is gone\<close>

lemma bot_entities_emit: "bot_entities (emit cs w) k = bot_entities w k"
  by (cases k) (simp_all add: emit_def)

lemma number_lookup_undefined:
  "bot_entities w (JNum n) = Undefined \<longleftrightarrow>
     n \<noteq> of_int \<lfloor>n\<rfloor> \<or> map_of (entities w) \<lfloor>n\<rfloor> = None"
  by (auto split: option.splits)

text \<open>
  Claim C7: a follow-and-attack whose target does not exist fails at once with
  \<^verbatim>\<open>TargetInvalid\<close>.

  In \<^verbatim>\<open>bot.ts\<close> it does not fail: \<^verbatim>\<open>AiBot.followAndAttack\<close> prints that the entity was
  not found and returns.
\<close>

theorem missing_target_without_error_in_bot_ts:
  "AiBot_followAndAttack (JNum 7) world0 =
     (world0\<lparr>trace := [Chat (Following_and_attacking (JNum 7)),
                       ConsoleLog (Cannot_follow ''bot'' (JNum 7))]\<rparr>, Resolved)"
  by (simp add: AiBot_followAndAttack_def world0_def emit_def Let_def)

text \<open>
  Claim C7, as the code has it, for an identifier that is a number, as the class
  declares it. When \<^verbatim>\<open>bot.entities\<close> has nothing under the number,
  \<^verbatim>\<open>FollowAndAttackAction.act\<close> throws before its first \<^verbatim>\<open>await\<close> the error
  \<^verbatim>\<open>Entity <id> not found\<close> (the code has no kinds of errors), having sent one line to the
  chat and one to the console, set no goal and registered no listener; the function of
  \<^verbatim>\<open>bot.ts\<close> sends its two lines and returns without an error.
\<close>

theorem follow_missing_target:
  assumes "bot_entities w (JNum n) = Undefined"
  shows "act_begin (FollowAndAttackAction (JNum n)) w =
           (emit [Chat (Following_and_attacking (JNum n)),
                  ConsoleLog (Cannot_find_entity (username w) (JNum n))] w,
            Inl (EntityNotFound (JNum n))) \<and>
         AiBot_followAndAttack (JNum n) w =
           (emit [Chat (Following_and_attacking (JNum n)),
                  ConsoleLog (Cannot_follow (username w) (JNum n))] w,
            Resolved)"
proof -
  have "bot_entities (emit [Chat (Following_and_attacking (JNum n))] w) (JNum n) = Undefined"
    using assms by (simp only: bot_entities_emit)
  then show ?thesis
    by (simp add: AiBot_followAndAttack_def Let_def emit_def del: bot_entities.simps)
qed

theorem follow_missing_target_witness:
  "bot_entities world7 (JNum 8) = Undefined \<and>
   snd (act_begin (FollowAndAttackAction (JNum 8)) world7) = Inl (EntityNotFound (JNum 8)) \<and>
   pathfinder_goal (fst (act_begin (FollowAndAttackAction (JNum 8)) world7)) = None \<and>
   trace (fst (act_begin (FollowAndAttackAction (JNum 8)) world7)) =
     [Chat (Following_and_attacking (JNum 8)), ConsoleLog (Cannot_find_entity ''bot'' (JNum 8))] \<and>
   snd (AiBot_followAndAttack (JNum 8) world7) = Resolved"
proof -
  have h: "bot_entities world7 (JNum 8) = Undefined"
    by (simp add: world7_def world0_def)
  from follow_missing_target[OF h] h show ?thesis
    by (simp add: world7_def world0_def emit_def del: bot_entities.simps)
qed

text \<open>
  An identifier that is a string is looked up as a property name: the string \<^verbatim>\<open>7\<close>
  finds entity 7 and is followed, and the name of a property of \<^verbatim>\<open>Object.prototype\<close>
  is taken for an entity, so that the goal cannot be built.
\<close>

lemma follow_string_identifier:
  "snd (act_begin (FollowAndAttackAction (JStr ''7'')) world7) = Inr AwaitEntityGone"
  by (simp add: world7_def world0_def emit_def setGoal_def Let_def ToString_def decimal.simps)

lemma follow_inherited_property:
  "act_begin (FollowAndAttackAction (JStr ''constructor'')) world0 =
     (world0\<lparr>trace := [Chat (Following_and_attacking (JStr ''constructor'')),
                       ConsoleLog (Bot_following ''bot'' (JStr ''constructor''))]\<rparr>,
      Inl TypeError)"
  by (simp add: world0_def emit_def Let_def Object_prototype_def)

section \<open>The control loop: the next cycle\<close>

lemma scheduled_emit: "scheduled (emit cs w) = scheduled w @ concat (map timer_of cs)"
  by (simp add: scheduled_def emit_def)

lemma scheduled_setGoal: "scheduled (setGoal g d w) = scheduled w"
  by (simp add: scheduled_def setGoal_def emit_def)

lemma scheduled_act_begin: "scheduled (fst (act_begin a w)) = scheduled w"
  by (cases a)
    (simp_all add: scheduled_emit scheduled_setGoal Let_def split: option.splits property.splits
      del: bot_entities.simps)

lemma scheduled_cancel_begin: "scheduled (fst (cancel_begin a w)) = scheduled w"
  by (cases a)
    (simp_all add: attempt_def scheduled_def emit_def setGoal_def split: option.splits)

lemma scheduled_reset_begin: "scheduled (snd (fst (reset_begin ex w))) = scheduled w"
proof -
  obtain w1 r where c: "cancel_begin (actions ex ! currentActionIndex ex) w = (w1, r)"
    by (cases "cancel_begin (actions ex ! currentActionIndex ex) w")
  then have "scheduled w1 = scheduled w"
    using scheduled_cancel_begin[of "actions ex ! currentActionIndex ex" w] by simp
  with c show ?thesis
    by (simp add: reset_begin_def scheduled_emit Let_def split: sum.splits bool.splits)
qed

lemma scheduled_start_failed: "scheduled (snd (fst (start_failed a e ex w))) = scheduled w"
proof -
  obtain c r where b: "reset_begin ex (failure_messages a e w) = (c, r)"
    by (cases "reset_begin ex (failure_messages a e w)")
  then have "scheduled (snd c) = scheduled (failure_messages a e w)"
    using scheduled_reset_begin[of ex "failure_messages a e w"] by simp
  with b show ?thesis
    by (simp add: start_failed_def failure_messages_def scheduled_emit)
qed

lemma scheduled_loop_first: "scheduled (fst (loop_first ex w)) = scheduled w"
proof -
  obtain w1 r where b: "act_begin (actions ex ! currentActionIndex ex) w = (w1, r)"
    by (cases "act_begin (actions ex ! currentActionIndex ex) w")
  then have "scheduled w1 = scheduled w"
    using scheduled_act_begin[of "actions ex ! currentActionIndex ex" w] by simp
  with b show ?thesis
    by (simp add: loop_first_def)
qed

lemma scheduled_loop_after: "scheduled (snd (fst (loop_after p ex w))) = scheduled w"
  by (simp add: loop_after_def scheduled_start_failed split: option.splits prod.splits sum.splits)

lemma scheduled_addAction: "scheduled (snd (addAction name a c)) = scheduled (snd c)"
  by (simp add: addAction_def Let_def scheduled_emit)

lemma scheduled_addAction_undefined:
  "scheduled (snd (fst (addAction_undefined name c))) = scheduled (snd c)"
  by (simp add: addAction_undefined_def Let_def scheduled_emit)

lemma scheduled_addPart: "scheduled (snd (fst (addPart part c))) = scheduled (snd c)"
  by (simp add: addPart_def scheduled_addAction scheduled_addAction_undefined
      split: option.splits prod.splits)

lemma scheduled_addParts: "scheduled (snd (fst (addParts parts c))) = scheduled (snd c)"
proof (induction parts arbitrary: c)
  case Nil
  then show ?case by simp
next
  case (Cons part parts)
  obtain c1 r where p: "addPart part c = (c1, r)"
    by (cases "addPart part c")
  then have 1: "scheduled (snd c1) = scheduled (snd c)"
    using scheduled_addPart[of part c] by simp
  show ?case
  proof (cases r)
    case None
    with p 1 Cons.IH[of c1] show ?thesis by simp
  next
    case (Some e)
    with p 1 show ?thesis by simp
  qed
qed

lemma addPart_throws: "snd (addPart part c) = (if throws_on part then Some TypeError else None)"
  by (auto simp add: addPart_def addAction_undefined_def throws_on_def Let_def
      split: option.splits prod.splits)

lemma addParts_throws:
  "snd (addParts parts c) = (if list_ex throws_on parts then Some TypeError else None)"
proof (induction parts arbitrary: c)
  case Nil
  then show ?case by simp
next
  case (Cons part parts)
  obtain c1 r where p: "addPart part c = (c1, r)"
    by (cases "addPart part c")
  then have r: "r = (if throws_on part then Some TypeError else None)"
    using addPart_throws[of part c] by simp
  show ?case
  proof (cases "throws_on part")
    case True
    with p r show ?thesis by simp
  next
    case False
    with p r Cons.IH[of c1] show ?thesis by simp
  qed
qed

lemma scheduled_act_finish:
  "scheduled (snd (fst (AiBot_act_finish resp ex w))) =
     scheduled w @ (if list_ex throws_on (concat resp) then [] else [LOOP_INTERVAL_MS])"
proof -
  obtain ex1 w1 r where a: "addParts (concat resp) (ex, w) = ((ex1, w1), r)"
    by (cases "addParts (concat resp) (ex, w)") auto
  then have 1: "scheduled w1 = scheduled w"
    using scheduled_addParts[of "concat resp" "(ex, w)"] by simp
  from a have r: "r = (if list_ex throws_on (concat resp) then Some TypeError else None)"
    using addParts_throws[of "concat resp" "(ex, w)"] by simp
  show ?thesis
  proof (cases "list_ex throws_on (concat resp)")
    case True
    with a r 1 show ?thesis by (simp add: AiBot_act_finish_def)
  next
    case False
    obtain w2 p where f: "loop_first ex1 (start_message ex1 w1) = (w2, p)"
      by (cases "loop_first ex1 (start_message ex1 w1)")
    then have 2: "scheduled w2 = scheduled w1"
      using scheduled_loop_first[of ex1 "start_message ex1 w1"]
      by (simp add: start_message_def scheduled_emit)
    obtain c t where l: "loop_after p ex1 (emit [SetTimeoutAct LOOP_INTERVAL_MS] w2) = (c, t)"
      by (cases "loop_after p ex1 (emit [SetTimeoutAct LOOP_INTERVAL_MS] w2)")
    then have 3: "scheduled (snd c) = scheduled w2 @ [LOOP_INTERVAL_MS]"
      using scheduled_loop_after[of p ex1 "emit [SetTimeoutAct LOOP_INTERVAL_MS] w2"]
      by (simp add: scheduled_emit)
    from False a r f l 1 2 3 show ?thesis
      by (simp add: AiBot_act_finish_def)
  qed
qed

lemma env_act_over: "env (act_over i r s) = snd (fst r)"
  by (simp add: act_over_def spawn_def split: sum.splits)

text \<open>
  Claim C9: the next cycle is scheduled 10 seconds after the run of this cycle has
  completed or aborted.

  It is scheduled while the run is going on. At the end of a first cycle that plans one
  move, the timer of 10000 ms is set, the move is in flight and still pending.
\<close>

theorem next_cycle_scheduled_during_run:
  "scheduled (env (run [Act (Percept 20 20), PlannerReply 0 [[move_call 1]]] (init world0))) =
     [10000] \<and>
   running (run [Act (Percept 20 20), PlannerReply 0 [[move_call 1]]] (init world0)) =
     [move 1] \<and>
   chains_toJSON (chains (run [Act (Percept 20 20), PlannerReply 0 [[move_call 1]]] (init world0))) =
     [toJSON (move 1)]"
  by (simp add: run_def machine_defs input_defs running_def scheduled_def)

text \<open>
  Claim C9, as the code has it. Take a cycle of \<^verbatim>\<open>AiBot.act\<close> that waits for the
  planner, and any response. The delay is 10000 ms. Once the \<^verbatim>\<open>reset\<close> that the cycle
  awaits is over, the cycle has set exactly one timer, unless the response calls a known
  tool without \<^verbatim>\<open>args\<close>: then \<^verbatim>\<open>addAction\<close> throws and no timer is set. As long as that
  \<^verbatim>\<open>reset\<close> waits for a cancellation, no timer is set. And the timer is set right
  after the call of \<^verbatim>\<open>start\<close>, which is not awaited: when \<^verbatim>\<open>reset\<close> returns at once
  and the action at the cursor of the translated list is suspended in its \<^verbatim>\<open>act\<close>, the
  reply of the planner leads in one step to the state in which the timer is set, the
  executor is as the translation left it, and that action is in flight.
\<close>

theorem next_cycle_scheduled_when_run_starts:
  assumes "i < length (tasks s)" and "tasks s ! i = ActAwaitPlanner"
  shows "LOOP_INTERVAL_MS = 10000 \<and>
    scheduled (env (settle i out (planner_reply i resp s))) =
      scheduled (env s) @ (if list_ex throws_on (concat resp) then [] else [LOOP_INTERVAL_MS]) \<and>
    (snd (reset_begin (chains s) (env s)) \<noteq> None \<longrightarrow>
       scheduled (env (planner_reply i resp s)) = scheduled (env s)) \<and>
    (reset_begin (chains s) (env s) = ((ex, w), None) \<and>
     addParts (concat resp) (ex, w) = ((ex1, w1), None) \<and>
     currentActionIndex ex1 < length (actions ex1) \<and>
     act_begin (actions ex1 ! currentActionIndex ex1) (start_message ex1 w1) = (w2, Inr st)
     \<longrightarrow> planner_reply i resp s =
           s\<lparr>chains := ex1, env := emit [SetTimeoutAct LOOP_INTERVAL_MS] w2,
             tasks := (tasks s)[i := Ended] @
                        [StartAwaitAct (actions ex1 ! currentActionIndex ex1) st]\<rparr>)"
proof (intro conjI impI)
  show "LOOP_INTERVAL_MS = 10000" by (simp add: LOOP_INTERVAL_MS_def)
next
  obtain c r where rb: "reset_begin (chains s) (env s) = (c, r)"
    by (cases "reset_begin (chains s) (env s)")
  then have sc: "scheduled (snd c) = scheduled (env s)"
    using scheduled_reset_begin[of "chains s" "env s"] by simp
  show "scheduled (env (settle i out (planner_reply i resp s))) =
      scheduled (env s) @ (if list_ex throws_on (concat resp) then [] else [LOOP_INTERVAL_MS])"
  proof (cases r)
    case None
    with rb assms have pr: "planner_reply i resp s = act_over i (AiBot_act_finish resp (fst c) (snd c)) s"
      by (simp add: planner_reply_def split: prod.splits)
    have "tasks (act_over i (AiBot_act_finish resp (fst c) (snd c)) s) ! i = Ended"
      using assms by (simp add: act_over_def spawn_def nth_append split: sum.splits)
    moreover have "i < length (tasks (act_over i (AiBot_act_finish resp (fst c) (snd c)) s))"
      using assms by (simp add: act_over_def spawn_def split: sum.splits)
    ultimately have "settle i out (planner_reply i resp s) = planner_reply i resp s"
      by (simp add: pr settle_def)
    then show ?thesis
      by (simp add: pr env_act_over scheduled_act_finish sc)
  next
    case (Some a)
    with rb assms have pr: "planner_reply i resp s = proceed i (c, Some (ActAwaitReset resp a)) s"
      by (simp add: planner_reply_def)
    then have "settle i out (planner_reply i resp s) =
        act_over i (AiBot_act_finish resp (reset_finish (fst c)) (snd c))
          (proceed i (c, Some (ActAwaitReset resp a)) s)"
      using assms by (simp add: settle_def proceed_def reset_resume_def)
    then show ?thesis
      by (simp add: env_act_over scheduled_act_finish sc)
  qed
next
  assume "snd (reset_begin (chains s) (env s)) \<noteq> None"
  then obtain c a where rb: "reset_begin (chains s) (env s) = (c, Some a)"
    by (cases "reset_begin (chains s) (env s)") auto
  then have sc: "scheduled (snd c) = scheduled (env s)"
    using scheduled_reset_begin[of "chains s" "env s"] by simp
  from rb assms have "env (planner_reply i resp s) = snd c"
    by (simp add: planner_reply_def proceed_def split: prod.splits)
  then show "scheduled (env (planner_reply i resp s)) = scheduled (env s)"
    by (simp add: sc)
next
  assume a: "reset_begin (chains s) (env s) = ((ex, w), None) \<and>
     addParts (concat resp) (ex, w) = ((ex1, w1), None) \<and>
     currentActionIndex ex1 < length (actions ex1) \<and>
     act_begin (actions ex1 ! currentActionIndex ex1) (start_message ex1 w1) = (w2, Inr st)"
  then have "AiBot_act_finish resp ex w =
      ((ex1, emit [SetTimeoutAct LOOP_INTERVAL_MS] w2),
       Inr (Some (StartAwaitAct (actions ex1 ! currentActionIndex ex1) st)))"
    by (simp add: AiBot_act_finish_def loop_first_def loop_after_def)
  with a assms show "planner_reply i resp s =
           s\<lparr>chains := ex1, env := emit [SetTimeoutAct LOOP_INTERVAL_MS] w2,
             tasks := (tasks s)[i := Ended] @
                        [StartAwaitAct (actions ex1 ! currentActionIndex ex1) st]\<rparr>"
    by (simp add: planner_reply_def act_over_def spawn_def)
qed

theorem next_cycle_scheduled_when_run_starts_witness:
  "0 < length (tasks planning) \<and> tasks planning ! 0 = ActAwaitPlanner \<and>
   reset_begin (chains planning) (env planning) = ((new_ActionChains, env planning), None) \<and>
   running (planner_reply 0 [[move_call 1]] planning) = [move 1] \<and>
   currentActionIndex (chains (planner_reply 0 [[move_call 1]] planning)) = 0 \<and>
   scheduled (env (planner_reply 0 [[move_call 1]] planning)) = [10000] \<and>
   2 < length (tasks replanning) \<and> tasks replanning ! 2 = ActAwaitPlanner \<and>
   snd (reset_begin (chains replanning) (env replanning)) \<noteq> None \<and>
   scheduled (env (planner_reply 2 [[move_call 2]] replanning)) = [10000] \<and>
   scheduled (env (settle 2 Resolved (planner_reply 2 [[move_call 2]] replanning))) =
     [10000, 10000]"
proof -
  let ?ex1 = "\<lparr>actions = [move 1], currentActionIndex = 0\<rparr>"
  let ?w1 = "emit [ConsoleLog (Adding_action ''bot'' ''move_to_position'' (xyz 1 64 1))]
               (env planning)"
  let ?w2 = "fst (act_begin (move 1) (start_message ?ex1 ?w1))"
  have p: "planning = \<lparr>chains = new_ActionChains,
      env = world0\<lparr>trace := [Chat (Status_summary (Percept 20 20)),
              ConsoleLog (Current_actions ''bot'' []), GenerateContent (Percept 20 20) []]\<rparr>,
      tasks = [ActAwaitPlanner], unhandled = []\<rparr>"
    by (simp add: planning_def run_def machine_defs input_defs)
  have p1: "0 < length (tasks planning)" and p2: "tasks planning ! 0 = ActAwaitPlanner"
    by (simp_all add: p)
  have p3: "reset_begin (chains planning) (env planning) = ((new_ActionChains, env planning), None)"
    by (simp add: p reset_begin_def new_ActionChains_def reset_finish_def)
  have p4: "addParts (concat [[move_call 1]]) (new_ActionChains, env planning) = ((?ex1, ?w1), None)"
    by (simp add: p machine_defs input_defs)
  have p5: "currentActionIndex ?ex1 < length (actions ?ex1) \<and>
      act_begin (actions ?ex1 ! currentActionIndex ?ex1) (start_message ?ex1 ?w1) =
        (?w2, Inr AwaitGoalReached)"
    by (simp add: move_def)
  note t = next_cycle_scheduled_when_run_starts[OF p1 p2, of Resolved "[[move_call 1]]"
      new_ActionChains "env planning" ?ex1 ?w1 ?w2 AwaitGoalReached]
  from t p3 p4 p5 have q: "planner_reply 0 [[move_call 1]] planning =
      planning\<lparr>chains := ?ex1, env := emit [SetTimeoutAct LOOP_INTERVAL_MS] ?w2,
        tasks := (tasks planning)[0 := Ended] @ [StartAwaitAct (move 1) AwaitGoalReached]\<rparr>"
    by simp
  have q1: "running (planner_reply 0 [[move_call 1]] planning) = [move 1]"
    unfolding q by (simp add: p running_def)
  have q2: "currentActionIndex (chains (planner_reply 0 [[move_call 1]] planning)) = 0"
    unfolding q by simp
  have q3: "scheduled (env (planner_reply 0 [[move_call 1]] planning)) = [10000]"
    unfolding q by (simp add: p scheduled_def machine_defs input_defs)
  have r: "tasks replanning = [Ended, StartAwaitAct (move 1) AwaitGoalReached, ActAwaitPlanner] \<and>
      scheduled (env replanning) = [10000] \<and>
      snd (reset_begin (chains replanning) (env replanning)) \<noteq> None"
    by (simp add: replanning_def run_def machine_defs input_defs scheduled_def)
  then have r1: "2 < length (tasks replanning)" and r2: "tasks replanning ! 2 = ActAwaitPlanner"
    by simp_all
  note u = next_cycle_scheduled_when_run_starts[OF r1 r2, of Resolved "[[move_call 2]]"]
  have nt: "\<not> list_ex throws_on (concat [[move_call 2]])"
    by (simp add: throws_on_def move_call_def)
  from u r have u3: "scheduled (env (planner_reply 2 [[move_call 2]] replanning)) = [10000]"
    by simp
  from u r nt have u2:
    "scheduled (env (settle 2 Resolved (planner_reply 2 [[move_call 2]] replanning))) =
       [10000, 10000]"
    by (simp add: LOOP_INTERVAL_MS_def)
  from p1 p2 p3 q1 q2 q3 r r1 r2 u3 u2 show ?thesis
    by blast
qed

text \<open>
  When the first action throws before its first \<^verbatim>\<open>await\<close>, the timer is set before the
  handler of \<^verbatim>\<open>start\<close> prints the failure; and a call of a known tool without
  \<^verbatim>\<open>args\<close> ends \<^verbatim>\<open>act\<close> with a \<^verbatim>\<open>TypeError\<close> and without a timer.
\<close>

lemma timer_before_failure_lines:
  "trace (env (run [Act (Percept 20 20),
                    PlannerReply 0 [[Some (''eat'', Some [(''itemName'', JStr ''bread'')])]]]
                 (init world0))) =
     [Chat (Status_summary (Percept 20 20)), ConsoleLog (Current_actions ''bot'' []),
      GenerateContent (Percept 20 20) [],
      ConsoleLog (Adding_action ''bot'' ''eat'' [(''itemName'', JStr ''bread'')]),
      Chat (Starting_actions 1), Chat (Eating (JStr ''bread'')),
      ConsoleLog (Cannot_eat ''bot'' (JStr ''bread'')),
      SetTimeoutAct 10000,
      ConsoleLog (Bot_action_failed ''bot'' (toJSON bread) (ItemNotFound (JStr ''bread''))),
      Chat (Action_failed (toJSON bread) (ItemNotFound (JStr ''bread'')))]"
  by (simp add: run_def machine_defs input_defs)

lemma call_without_args_ends_act:
  "unhandled (run [Act p, PlannerReply 0 [[Some (''eat'', None)]]] (init world0)) = [TypeError] \<and>
   tasks (run [Act p, PlannerReply 0 [[Some (''eat'', None)]]] (init world0)) = [Ended] \<and>
   scheduled (env (run [Act p, PlannerReply 0 [[Some (''eat'', None)]]] (init world0))) = []"
  by (simp add: run_def machine_defs input_defs scheduled_def)

end
